theory Spec2Isabelle
  imports Main "HOL-Library.Sublist"
begin

section \<open>Errors and effectful computations\<close>

text \<open>
  The tool is Python: a function either returns a value or raises. The exceptions that the
  modelled code raises itself are \<open>FatalError\<close> (class \<open>FatalError\<close> of common.py) and
  the \<open>AssertionError\<close> of the \<open>assert\<close> statement in \<open>BugSearch\<close>; \<open>IndexError\<close> is what
  list indexing raises out of range, \<open>CalledProcessError\<close> is what
  \<open>subprocess.check_call\<close> raises on a non-zero exit status, and \<open>OSError\<close> stands for
  whatever else the operating system or a library call raises.
\<close>

datatype error =
    FatalError string
  | AssertionError string
  | IndexError
  | CalledProcessError int
  | OSError string

text \<open>
  A computation over a state \<open>'s\<close> returns either an error or a value, together with the
  state it leaves behind.
\<close>

type_synonym ('s, 'a) prog = "'s \<Rightarrow> (error + 'a) \<times> 's"

definition returnE :: "'a \<Rightarrow> ('s, 'a) prog" where
  "returnE x = (\<lambda>s. (Inr x, s))"

definition raiseE :: "error \<Rightarrow> ('s, 'a) prog" where
  "raiseE e = (\<lambda>s. (Inl e, s))"

definition bindE :: "('s, 'a) prog \<Rightarrow> ('a \<Rightarrow> ('s, 'b) prog) \<Rightarrow> ('s, 'b) prog" where
  "bindE m f = (\<lambda>s. case m s of (Inl e, s') \<Rightarrow> (Inl e, s') | (Inr x, s') \<Rightarrow> f x s')"


section \<open>The bisection engine (bisection-search.py)\<close>

subsection \<open>BinarySearch\<close>

text \<open>
  \<^verbatim>\<open>
  def BinarySearch(start, end, test):
    while start < end:
      mid = (start + end) // 2
      if test(mid):
        start = mid + 1
      else:
        end = mid
    return start
  \<close>
  The loop is a recursive function on Python's unbounded integers; \<open>//\<close> is floor
  division, which is \<open>div\<close> on \<open>int\<close>. The callback \<open>test\<close> runs a probe: it may change
  the state and it may raise, in which case the exception leaves the loop.
\<close>

function BinarySearch :: "int \<Rightarrow> int \<Rightarrow> (int \<Rightarrow> ('s, bool) prog) \<Rightarrow> ('s, int) prog" where
  "BinarySearch start en test s =
     (if start < en then
        (let mid = (start + en) div 2 in
         case test mid s of
           (Inl e, s') \<Rightarrow> (Inl e, s')
         | (Inr b, s') \<Rightarrow>
             if b then BinarySearch (mid + 1) en test s'
             else BinarySearch start mid test s')
      else (Inr start, s))"
  by pat_completeness auto
termination
  by (relation "measure (\<lambda>(start, en, test, s). nat (en - start))") auto

declare BinarySearch.simps [simp del]

text \<open>
  A test double for the callback: it answers like \<open>test\<close> and appends the index it was
  called with to a list kept beside the state.
\<close>

definition tracing :: "(int \<Rightarrow> ('s, bool) prog) \<Rightarrow> int \<Rightarrow> ('s \<times> int list, bool) prog" where
  "tracing test i = (\<lambda>(s, calls). case test i s of (r, s') \<Rightarrow> (r, (s', calls @ [i])))"


subsection \<open>FilterPasses\<close>

definition MANDATORY_PASSES :: "string list" where
  "MANDATORY_PASSES =
     [''dex_cache_array_fixups_arm'',
      ''dex_cache_array_fixups_mips'',
      ''instruction_simplifier$before_codegen'',
      ''pc_relative_fixups_x86'',
      ''pc_relative_fixups_mips'',
      ''x86_memory_operand_generation'']"

definition NON_PASSES :: "string list" where
  "NON_PASSES = [''builder'', ''prepare_for_register_allocation'', ''liveness'', ''register'']"

text \<open>
  \<^verbatim>\<open>
  def FilterPasses(passes, cutoff_idx):
    return [opt_pass for idx, opt_pass in enumerate(passes)
            if opt_pass in MANDATORY_PASSES or idx < cutoff_idx]
  \<close>
\<close>

definition FilterPasses :: "string list \<Rightarrow> int \<Rightarrow> string list" where
  "FilterPasses passes cutoff_idx =
     map snd (filter (\<lambda>(idx, opt_pass). opt_pass \<in> set MANDATORY_PASSES \<or> int idx < cutoff_idx)
                (enumerate 0 passes))"

section \<open>The test environments (common.py)\<close>

subsection \<open>The world outside the tool\<close>

text \<open>
  The environments act on the file system, on child processes and on the device. What
  these answer is not in the repository, so it is a parameter: a record of functions over
  a state \<open>'x\<close> of the outside world. Beside that state the model keeps the list of the
  effects performed so far, in order; later theorems read the order of effects off it.
  \<^item> \<open>Popen\<close> is given either a string (the host environment) or a list of arguments
    (the device environment, after \<open>shlex.split\<close>);
  \<^item> the log entry written by \<open>_RunCommandForOutputAndLog\<close> is kept as its four
    fields instead of the formatted text;
  \<open>EmptyDexCacheCalled\<close> marks the entry into \<open>_EmptyDexCache\<close>, as a test double that
  records invalidation calls would.
\<close>

datatype popen_cmd = CmdString string | CmdArgs "string list"

datatype log_status = TIMEOUT | ReturnCode int

datatype event =
    EmptyDexCacheCalled
  | Unlink string
  | CheckCall "string list"
  | Popen popen_cmd
  | LogWrite popen_cmd log_status string string

record 'x world =
  ext :: 'x
  events :: "event list"


definition emit :: "event \<Rightarrow> 'x world \<Rightarrow> 'x world" where
  "emit e w = w\<lparr>events := events w @ [e]\<rparr>"





subsection \<open>Module-level constants and functions\<close>

definition DEVICE_TMP_PATH :: string where
  "DEVICE_TMP_PATH = ''/data/local/tmp''"






subsection \<open>The interface ITestEnv\<close>

text \<open>
  The abstract class \<open>ITestEnv\<close>: what a testable compilation asks of its environment.
  (The property \<open>logfile\<close> is read by \<open>main\<close> only.)
\<close>

record 'w ITestEnv =
  CreateFile :: "string option \<Rightarrow> ('w, string) prog"
  WriteLines :: "string \<Rightarrow> string list \<Rightarrow> ('w, unit) prog"
  RunCommand :: "string \<Rightarrow> ('w, string \<times> string \<times> int) prog"
  classpath :: string


subsection \<open>HostTestEnv\<close>





subsection \<open>DeviceTestEnv\<close>















section \<open>Testable compilations and the two-stage search (bisection-search.py)\<close>

subsection \<open>Python list operations\<close>

text \<open>
  \<open>xs[0:stop]\<close> and \<open>xs[i]\<close>: a negative bound or index counts from the end, a slice
  is clipped to the list, and an index out of range raises \<open>IndexError\<close>.
\<close>

definition slice_to :: "'a list \<Rightarrow> int \<Rightarrow> 'a list" where
  "slice_to xs stop =
     (if 0 \<le> stop then take (nat stop) xs else take (nat (int (length xs) + stop)) xs)"

definition index :: "'a list \<Rightarrow> int \<Rightarrow> ('s, 'a) prog" where
  "index xs i =
     (if 0 \<le> i \<and> i < int (length xs) then returnE (xs ! nat i)
      else if - int (length xs) \<le> i \<and> i < 0 then returnE (xs ! nat (int (length xs) + i))
      else raiseE IndexError)"


subsection \<open>Dex2OatWrapperTestable\<close>

record 'w Dex2OatWrapperTestable =
  base_cmd :: string
  test_env :: "'w ITestEnv"
  class_name :: string
  correct_output :: "string option"
  compiled_methods_path :: string
  passes_to_run_path :: string
  verbose :: bool

text \<open>
  \<^verbatim>\<open>
  def __init__(self, base_cmd, test_env, class_name, correct_output=None,
               verbose=False):
    self._base_cmd = base_cmd
    self._test_env = test_env
    self._class_name = class_name
    self._correct_output = correct_output
    self._compiled_methods_path = self._test_env.CreateFile("compiled_methods")
    self._passes_to_run_path = self._test_env.CreateFile("run_passes")
    self._verbose = verbose
  \<close>
  The reference output is a string or Python's \<open>None\<close>.
\<close>

definition Dex2OatWrapperTestable_init ::
    "string \<Rightarrow> 'w ITestEnv \<Rightarrow> string \<Rightarrow> string option \<Rightarrow> bool
      \<Rightarrow> ('w, 'w Dex2OatWrapperTestable) prog" where
  "Dex2OatWrapperTestable_init base_cmd' test_env' class_name' correct_output' verbose' =
     bindE (CreateFile test_env' (Some ''compiled_methods'')) (\<lambda>methods_path.
     bindE (CreateFile test_env' (Some ''run_passes'')) (\<lambda>passes_path.
     returnE \<lparr> base_cmd = base_cmd', test_env = test_env', class_name = class_name',
               correct_output = correct_output', compiled_methods_path = methods_path,
               passes_to_run_path = passes_path, verbose = verbose' \<rparr>))"

text \<open>
  \<^verbatim>\<open>
  def _PrepareCmd(self, compiled_methods=None, passes_to_run=None,
                  verbose_compiler=False):
    cmd = self._base_cmd
    if compiled_methods is not None:
      self._test_env.WriteLines(self._compiled_methods_path, compiled_methods)
      cmd += " -Xcompiler-option --compiled-methods={0}".format(
          self._compiled_methods_path)
    if passes_to_run is not None:
      self._test_env.WriteLines(self._passes_to_run_path, passes_to_run)
      cmd += " -Xcompiler-option --run-passes={0}".format(
          self._passes_to_run_path)
    if verbose_compiler:
      cmd += (" -Xcompiler-option --runtime-arg -Xcompiler-option"
              " -verbose:compiler")
    cmd += " -classpath {0} {1}".format(self._test_env.classpath,
                                        self._class_name)
    return cmd
  \<close>
\<close>

definition PrepareCmd ::
    "'w Dex2OatWrapperTestable \<Rightarrow> string list option \<Rightarrow> string list option \<Rightarrow> bool
      \<Rightarrow> ('w, string) prog" where
  "PrepareCmd self compiled_methods passes_to_run verbose_compiler =
     bindE (case compiled_methods of
              None \<Rightarrow> returnE (base_cmd self)
            | Some methods \<Rightarrow>
                bindE (WriteLines (test_env self) (compiled_methods_path self) methods)
                  (\<lambda>_. returnE (base_cmd self @ '' -Xcompiler-option --compiled-methods=''
                                   @ compiled_methods_path self))) (\<lambda>cmd1.
     bindE (case passes_to_run of
              None \<Rightarrow> returnE cmd1
            | Some passes \<Rightarrow>
                bindE (WriteLines (test_env self) (passes_to_run_path self) passes)
                  (\<lambda>_. returnE (cmd1 @ '' -Xcompiler-option --run-passes=''
                                   @ passes_to_run_path self))) (\<lambda>cmd2.
     let cmd3 = (if verbose_compiler
                 then cmd2 @ '' -Xcompiler-option --runtime-arg -Xcompiler-option''
                        @ '' -verbose:compiler''
                 else cmd2)
     in returnE (cmd3 @ '' -classpath '' @ classpath (test_env self) @ '' ''
                   @ class_name self)))"

text \<open>
  \<^verbatim>\<open>
  def Test(self, compiled_methods, passes_to_run=None):
    if self._verbose:
      print("Testing methods: {0} passes:{1}.".format(
          compiled_methods, passes_to_run))
    cmd = self._PrepareCmd(compiled_methods=compiled_methods,
                           passes_to_run=passes_to_run,
                           verbose_compiler=True)
    (output, _, ret_code) = self._test_env.RunCommand(cmd)
    res = ret_code != 0 or output == self._correct_output
    if self._verbose:
      print("Test passed: {0}.".format(res))
    return res
  \<close>
  The two \<open>print\<close> calls write to the tool's own standard output, which nothing in the
  tool reads back; they are left out. A string never equals \<open>None\<close>, so the comparison
  with the reference output is the equation \<open>Some output = correct_output self\<close>.
\<close>

definition Dex2OatWrapperTestable_Test ::
    "'w Dex2OatWrapperTestable \<Rightarrow> string list option \<Rightarrow> string list option \<Rightarrow> ('w, bool) prog" where
  "Dex2OatWrapperTestable_Test self compiled_methods passes_to_run =
     bindE (PrepareCmd self compiled_methods passes_to_run True) (\<lambda>cmd.
     bindE (RunCommand (test_env self) cmd) (\<lambda>(output, err_output, ret_code).
     returnE (ret_code \<noteq> 0 \<or> Some output = correct_output self)))"

text \<open>
  \<^verbatim>\<open>
  def GetAllMethods(self):
    cmd = self._PrepareCmd(verbose_compiler=True)
    (_, err_output, _) = self._test_env.RunCommand(cmd)
    match_methods = re.findall(r"Building ([^\n]+)\n", err_output)
    if not match_methods:
      raise FatalError("Failed to retrieve methods list. "
                       "Not recognized output format.")
    return match_methods
  \<close>
  The regular-expression library is not part of the repository: \<open>find_methods\<close> stands
  for \<open>re.findall\<close> with the pattern of \<open>GetAllMethods\<close>, \<open>find_passes\<close> for
  \<open>re.findall\<close> with the pattern of \<open>GetAllPassesForMethod\<close>.
\<close>

definition Dex2OatWrapperTestable_GetAllMethods ::
    "(string \<Rightarrow> string list) \<Rightarrow> 'w Dex2OatWrapperTestable \<Rightarrow> ('w, string list) prog" where
  "Dex2OatWrapperTestable_GetAllMethods find_methods self =
     bindE (PrepareCmd self None None True) (\<lambda>cmd.
     bindE (RunCommand (test_env self) cmd) (\<lambda>(output, err_output, ret_code).
     let match_methods = find_methods err_output in
     if match_methods = [] then
       raiseE (FatalError ''Failed to retrieve methods list. Not recognized output format.'')
     else returnE match_methods))"

text \<open>
  \<^verbatim>\<open>
  def GetAllPassesForMethod(self, compiled_method):
    cmd = self._PrepareCmd(compiled_methods=[compiled_method],
                           verbose_compiler=True)
    (_, err_output, _) = self._test_env.RunCommand(cmd)
    match_passes = re.findall(r"Starting pass: ([^\n]+)\n", err_output)
    if not match_passes:
      raise FatalError("Failed to retrieve passes list. "
                       "Not recognized output format.")
    return [p for p in match_passes if p not in NON_PASSES]
  \<close>
\<close>

definition Dex2OatWrapperTestable_GetAllPassesForMethod ::
    "(string \<Rightarrow> string list) \<Rightarrow> 'w Dex2OatWrapperTestable \<Rightarrow> string \<Rightarrow> ('w, string list) prog" where
  "Dex2OatWrapperTestable_GetAllPassesForMethod find_passes self compiled_method =
     bindE (PrepareCmd self (Some [compiled_method]) None True) (\<lambda>cmd.
     bindE (RunCommand (test_env self) cmd) (\<lambda>(output, err_output, ret_code).
     let match_passes = find_passes err_output in
     if match_passes = [] then
       raiseE (FatalError ''Failed to retrieve passes list. Not recognized output format.'')
     else returnE (filter (\<lambda>p. p \<notin> set NON_PASSES) match_passes)))"


subsection \<open>BugSearch\<close>

text \<open>
  \<open>BugSearch\<close> calls three methods of its argument and nothing else of it. The argument
  is therefore a record of these three methods: the wrapper above is one such record, a
  test double is another.
\<close>

record 's testable =
  GetAllMethods :: "('s, string list) prog"
  Test :: "string list option \<Rightarrow> string list option \<Rightarrow> ('s, bool) prog"
  GetAllPassesForMethod :: "string \<Rightarrow> ('s, string list) prog"

definition Dex2OatWrapperTestable_testable ::
    "(string \<Rightarrow> string list) \<Rightarrow> (string \<Rightarrow> string list) \<Rightarrow> 'w Dex2OatWrapperTestable
      \<Rightarrow> 'w testable" where
  "Dex2OatWrapperTestable_testable find_methods find_passes self =
     \<lparr> GetAllMethods = Dex2OatWrapperTestable_GetAllMethods find_methods self,
       Test = Dex2OatWrapperTestable_Test self,
       GetAllPassesForMethod = Dex2OatWrapperTestable_GetAllPassesForMethod find_passes self \<rparr>"

text \<open>
  The two callbacks that \<open>BugSearch\<close> hands to \<open>BinarySearch\<close>:
  \<^verbatim>\<open>lambda mid: testable.Test(all_methods[0:mid])\<close> and
  \<^verbatim>\<open>lambda mid: testable.Test([faulty_method], FilterPasses(all_passes, mid))\<close>.
\<close>

definition method_probe :: "'s testable \<Rightarrow> string list \<Rightarrow> int \<Rightarrow> ('s, bool) prog" where
  "method_probe testable all_methods = (\<lambda>mid. Test testable (Some (slice_to all_methods mid)) None)"

definition pass_probe :: "'s testable \<Rightarrow> string \<Rightarrow> string list \<Rightarrow> int \<Rightarrow> ('s, bool) prog" where
  "pass_probe testable faulty_method all_passes =
     (\<lambda>mid. Test testable (Some [faulty_method]) (Some (FilterPasses all_passes mid)))"

text \<open>
  \<^verbatim>\<open>
  def BugSearch(testable):
    all_methods = testable.GetAllMethods()
    faulty_method_idx = BinarySearch(
        0,
        len(all_methods),
        lambda mid: testable.Test(all_methods[0:mid]))
    if faulty_method_idx == len(all_methods):
      return (None, None)
    if faulty_method_idx == 0:
      raise FatalError("Testable fails with no methods compiled. "
                       "Perhaps issue lies outside of compiler.")
    faulty_method = all_methods[faulty_method_idx - 1]
    all_passes = testable.GetAllPassesForMethod(faulty_method)
    faulty_pass_idx = BinarySearch(
        0,
        len(all_passes),
        lambda mid: testable.Test([faulty_method],
                                  FilterPasses(all_passes, mid)))
    if faulty_pass_idx == 0:
      return (faulty_method, None)
    assert faulty_pass_idx != len(all_passes), "Method must fail for some passes."
    faulty_pass = all_passes[faulty_pass_idx - 1]
    return (faulty_method, faulty_pass)
  \<close>
  The result is a pair of method and pass, each a name or \<open>None\<close>.
\<close>

definition outside_compiler :: error where
  "outside_compiler =
     FatalError ''Testable fails with no methods compiled. Perhaps issue lies outside of compiler.''"

definition must_fail_for_some_passes :: error where
  "must_fail_for_some_passes = AssertionError ''Method must fail for some passes.''"

definition BugSearch :: "'s testable \<Rightarrow> ('s, string option \<times> string option) prog" where
  "BugSearch testable =
     bindE (GetAllMethods testable) (\<lambda>all_methods.
     bindE (BinarySearch 0 (int (length all_methods)) (method_probe testable all_methods))
       (\<lambda>faulty_method_idx.
     if faulty_method_idx = int (length all_methods) then returnE (None, None)
     else if faulty_method_idx = 0 then raiseE outside_compiler
     else
     bindE (index all_methods (faulty_method_idx - 1)) (\<lambda>faulty_method.
     bindE (GetAllPassesForMethod testable faulty_method) (\<lambda>all_passes.
     bindE (BinarySearch 0 (int (length all_passes))
              (pass_probe testable faulty_method all_passes)) (\<lambda>faulty_pass_idx.
     if faulty_pass_idx = 0 then returnE (Some faulty_method, None)
     else if faulty_pass_idx = int (length all_passes) then raiseE must_fail_for_some_passes
     else
     bindE (index all_passes (faulty_pass_idx - 1)) (\<lambda>faulty_pass.
     returnE (Some faulty_method, Some faulty_pass)))))))"


subsection \<open>Test doubles\<close>

text \<open>
  A testable that records the calls made to it: it answers like the testable it wraps and
  appends each call to a list kept beside the state.
\<close>

datatype call =
    CallGetAllMethods
  | CallTest "string list option" "string list option"
  | CallGetAllPassesForMethod string

definition recorded :: "call \<Rightarrow> ('s, 'a) prog \<Rightarrow> ('s \<times> call list, 'a) prog" where
  "recorded c m = (\<lambda>(s, calls). case m s of (r, s') \<Rightarrow> (r, (s', calls @ [c])))"

definition recording :: "'s testable \<Rightarrow> ('s \<times> call list) testable" where
  "recording t =
     \<lparr> GetAllMethods = recorded CallGetAllMethods (GetAllMethods t),
       Test = (\<lambda>compiled_methods passes_to_run.
                 recorded (CallTest compiled_methods passes_to_run)
                   (Test t compiled_methods passes_to_run)),
       GetAllPassesForMethod = (\<lambda>method.
                 recorded (CallGetAllPassesForMethod method) (GetAllPassesForMethod t method)) \<rparr>"

text \<open>The calls of stage two: fetching a pass list, and a probe restricted to given passes.\<close>

fun stage_two_call :: "call \<Rightarrow> bool" where
  "stage_two_call (CallGetAllPassesForMethod m) = True"
| "stage_two_call (CallTest compiled_methods (Some passes)) = True"
| "stage_two_call c = False"

text \<open>
  \<open>stage_one_calls_only \<sigma> \<sigma>'\<close>: from \<open>\<sigma>\<close> to \<open>\<sigma>'\<close> the recorded calls grew, and by no
  call of stage two.
\<close>

definition stage_one_calls_only :: "'s \<times> call list \<Rightarrow> 's \<times> call list \<Rightarrow> bool" where
  "stage_one_calls_only \<sigma> \<sigma>' \<longleftrightarrow>
     (\<exists>new. snd \<sigma>' = snd \<sigma> @ new \<and> (\<forall>c\<in>set new. \<not> stage_two_call c))"

text \<open>
  A stateless testable given by its method list, its pass lists and the outcome of a probe.
\<close>

definition pure_testable ::
    "string list \<Rightarrow> (string \<Rightarrow> string list)
      \<Rightarrow> (string list option \<Rightarrow> string list option \<Rightarrow> bool) \<Rightarrow> unit testable" where
  "pure_testable methods passes_of probe =
     \<lparr> GetAllMethods = returnE methods,
       Test = (\<lambda>compiled_methods passes_to_run. returnE (probe compiled_methods passes_to_run)),
       GetAllPassesForMethod = (\<lambda>method. returnE (passes_of method)) \<rparr>"

text \<open>
  The fault of a synthetic program: a probe fails (is \<open>False\<close>) exactly when the method
  \<open>bad_method\<close> is compiled and the pass \<open>bad_pass\<close> is run on it; no restriction on the
  methods compiles them all, no restriction on the passes runs them all.
\<close>

definition fails_with :: "string \<Rightarrow> string \<Rightarrow> string list option \<Rightarrow> string list option \<Rightarrow> bool" where
  "fails_with bad_method bad_pass compiled_methods passes_to_run \<longleftrightarrow>
     \<not> ((case compiled_methods of None \<Rightarrow> True | Some methods \<Rightarrow> bad_method \<in> set methods)
        \<and> (case passes_to_run of None \<Rightarrow> True | Some passes \<Rightarrow> bad_pass \<in> set passes))"

definition synthetic_testable :: "unit testable" where
  "synthetic_testable =
     pure_testable [''m0'', ''m1'', ''m2'', ''m3'']
       (\<lambda>method. if method = ''m1'' then [''p0'', ''p1'', ''p2''] else [])
       (fails_with ''m1'' ''p0'')"

text \<open>
  A testable whose probes all pass, and one whose faulty method has no optional pass.
\<close>

definition passing_testable :: "unit testable" where
  "passing_testable =
     pure_testable [''m0'', ''m1''] (\<lambda>method. [''p0''])
       (\<lambda>compiled_methods passes_to_run. True)"

definition no_passes_testable :: "unit testable" where
  "no_passes_testable =
     pure_testable [''m0'', ''m1''] (\<lambda>method. [])
       (\<lambda>compiled_methods passes_to_run.
          case compiled_methods of None \<Rightarrow> False | Some methods \<Rightarrow> ''m0'' \<notin> set methods)"

text \<open>A testable with two methods, two optional passes for each, and a given probe.\<close>

definition two_by_two :: "(string list option \<Rightarrow> string list option \<Rightarrow> bool) \<Rightarrow> unit testable" where
  "two_by_two probe = pure_testable [''m0'', ''m1''] (\<lambda>method. [''p0'', ''p1'']) probe"

text \<open>An environment for running the wrapper on concrete inputs: every command prints
  \<open>''42''\<close>, and exits with the status held in the state.\<close>

definition stub_env :: "int ITestEnv" where
  "stub_env =
     \<lparr> CreateFile = (\<lambda>name. returnE (''/tmp/b/'' @ (case name of None \<Rightarrow> ''tmp0'' | Some n \<Rightarrow> n))),
       WriteLines = (\<lambda>file_path lines. returnE ()),
       RunCommand = (\<lambda>cmd status. (Inr (''42'', '''', status), status)),
       classpath = ''classes.dex'' \<rparr>"

definition stub_testable :: "string option \<Rightarrow> int Dex2OatWrapperTestable" where
  "stub_testable reference =
     \<lparr> base_cmd = ''dalvikvm32'', test_env = stub_env, class_name = ''Test'',
       correct_output = reference, compiled_methods_path = ''/tmp/b/compiled_methods'',
       passes_to_run_path = ''/tmp/b/run_passes'', verbose = False \<rparr>"

section \<open>Properties of BinarySearch\<close>

lemma BinarySearch_stop: "\<not> start < en \<Longrightarrow> BinarySearch start en test s = (Inr start, s)"
  by (simp add: BinarySearch.simps)

text \<open>
  When the callback answers \<open>True\<close> below a cutoff \<open>k\<close> and \<open>False\<close> from \<open>k\<close> on, in
  whatever state it is called, the search returns \<open>k\<close>.
\<close>

lemma BinarySearch_cutoff:
  assumes "start \<le> k" and "k \<le> en"
    and "\<forall>i s. start \<le> i \<and> i < k \<longrightarrow> fst (test i s) = Inr True"
    and "\<forall>i s. k \<le> i \<and> i < en \<longrightarrow> fst (test i s) = Inr False"
  shows "fst (BinarySearch start en test s) = Inr k"
  using assms
proof (induction start en test s rule: BinarySearch.induct)
  case (1 start en test s)
  show ?case
  proof (cases "start < en")
    case False
    with "1.prems" have "start = k" by simp
    with False show ?thesis by (simp add: BinarySearch_stop)
  next
    case True
    define mid where "mid = (start + en) div 2"
    have mid: "start \<le> mid" "mid < en" using True by (auto simp: mid_def)
    obtain r s' where ts: "test mid s = (r, s')" by (cases "test mid s")
    show ?thesis
    proof (cases "mid < k")
      case lt: True
      with mid "1.prems" ts have r: "r = Inr True" by (metis fst_conv)
      have "fst (BinarySearch (mid + 1) en test s') = Inr k"
      proof (rule "1.IH"(1)[OF True mid_def _ _ _ _])
        show "(r, s') = test mid s" using ts by simp
        show "r = Inr True" by (rule r)
        show "True" by simp
        show "mid + 1 \<le> k" using lt by simp
        show "k \<le> en" by (rule "1.prems"(2))
        show "\<forall>i s. mid + 1 \<le> i \<and> i < k \<longrightarrow> fst (test i s) = Inr True"
          using "1.prems"(3) mid by auto
        show "\<forall>i s. k \<le> i \<and> i < en \<longrightarrow> fst (test i s) = Inr False"
          by (rule "1.prems"(4))
      qed
      then show ?thesis
        using True ts r by (subst BinarySearch.simps) (simp add: mid_def [symmetric])
    next
      case ge: False
      with mid "1.prems" ts have r: "r = Inr False" by (metis fst_conv not_less)
      have "fst (BinarySearch start mid test s') = Inr k"
      proof (rule "1.IH"(2)[OF True mid_def _ _ _ _])
        show "(r, s') = test mid s" using ts by simp
        show "r = Inr False" by (rule r)
        show "\<not> False" by simp
        show "start \<le> k" by (rule "1.prems"(1))
        show "k \<le> mid" using ge by simp
        show "\<forall>i s. start \<le> i \<and> i < k \<longrightarrow> fst (test i s) = Inr True"
          by (rule "1.prems"(3))
        show "\<forall>i s. k \<le> i \<and> i < mid \<longrightarrow> fst (test i s) = Inr False"
          using "1.prems"(4) mid by auto
      qed
      then show ?thesis
        using True ts r by (subst BinarySearch.simps) (simp add: mid_def [symmetric])
    qed
  qed
qed

lemma BinarySearch_tracing_calls:
  "BinarySearch start en (tracing test) (s, calls) = (r, (s', calls'))
   \<Longrightarrow> \<exists>new. calls' = calls @ new \<and> (\<forall>i\<in>set new. start \<le> i \<and> i < en)"
proof (induction start en "tracing test" "(s, calls)" arbitrary: s calls rule: BinarySearch.induct)
  case (1 start en)
  show ?case
  proof (cases "start < en")
    case False
    with "1.prems" show ?thesis by (simp add: BinarySearch_stop)
  next
    case True
    define mid where "mid = (start + en) div 2"
    have mid: "start \<le> mid" "mid < en" using True by (auto simp: mid_def)
    obtain b s1 where ts: "test mid s = (b, s1)" by (cases "test mid s")
    then have tt: "tracing test mid (s, calls) = (b, (s1, calls @ [mid]))"
      by (simp add: tracing_def)
    show ?thesis
    proof (cases b)
      case (Inl e)
      with "1.prems" True tt have "calls' = calls @ [mid]"
        by (subst (asm) BinarySearch.simps) (simp add: mid_def [symmetric])
      with mid show ?thesis by simp
    next
      case (Inr t)
      show ?thesis
      proof (cases t)
        case True
        have run: "BinarySearch (mid + 1) en (tracing test) (s1, calls @ [mid]) = (r, (s', calls'))"
          using "1.prems" \<open>start < en\<close> tt Inr True
          by (subst (asm) BinarySearch.simps) (simp add: mid_def [symmetric])
        have "\<exists>new. calls' = (calls @ [mid]) @ new \<and> (\<forall>i\<in>set new. mid + 1 \<le> i \<and> i < en)"
          using "1.hyps"(1)[OF \<open>start < en\<close> mid_def tt [symmetric] _ _ run] Inr True by simp
        then obtain new where "calls' = calls @ (mid # new)" "\<forall>i\<in>set new. mid + 1 \<le> i \<and> i < en"
          by auto
        with mid have "calls' = calls @ (mid # new) \<and> (\<forall>i\<in>set (mid # new). start \<le> i \<and> i < en)"
          by auto
        then show ?thesis by blast
      next
        case False
        have run: "BinarySearch start mid (tracing test) (s1, calls @ [mid]) = (r, (s', calls'))"
          using "1.prems" \<open>start < en\<close> tt Inr False
          by (subst (asm) BinarySearch.simps) (simp add: mid_def [symmetric])
        have "\<exists>new. calls' = (calls @ [mid]) @ new \<and> (\<forall>i\<in>set new. start \<le> i \<and> i < mid)"
          using "1.hyps"(2)[OF \<open>start < en\<close> mid_def tt [symmetric] _ _ run] Inr False by simp
        then obtain new where "calls' = calls @ (mid # new)" "\<forall>i\<in>set new. start \<le> i \<and> i < mid"
          by auto
        with mid have "calls' = calls @ (mid # new) \<and> (\<forall>i\<in>set (mid # new). start \<le> i \<and> i < en)"
          by auto
        then show ?thesis by blast
      qed
    qed
  qed
qed

lemma BinarySearch_in_range:
  "start \<le> en \<Longrightarrow> BinarySearch start en test s = (Inr k, s') \<Longrightarrow> start \<le> k \<and> k \<le> en"
proof (induction start en test s rule: BinarySearch.induct)
  case (1 start en test s)
  show ?case
  proof (cases "start < en")
    case False
    with "1.prems" show ?thesis by (simp add: BinarySearch_stop)
  next
    case True
    define mid where "mid = (start + en) div 2"
    have mid: "start \<le> mid" "mid < en" using True by (auto simp: mid_def)
    obtain b s1 where ts: "test mid s = (b, s1)" by (cases "test mid s")
    show ?thesis
    proof (cases b)
      case (Inl e)
      with "1.prems" True ts show ?thesis
        by (subst (asm) BinarySearch.simps) (simp add: mid_def [symmetric])
    next
      case (Inr t)
      show ?thesis
      proof (cases t)
        case True
        have run: "BinarySearch (mid + 1) en test s1 = (Inr k, s')"
          using "1.prems" \<open>start < en\<close> ts Inr True
          by (subst (asm) BinarySearch.simps) (simp add: mid_def [symmetric])
        have "mid + 1 \<le> k \<and> k \<le> en"
          using "1.IH"(1)[OF \<open>start < en\<close> mid_def ts [symmetric] _ _ _ run] Inr True mid by simp
        with mid show ?thesis by simp
      next
        case False
        have run: "BinarySearch start mid test s1 = (Inr k, s')"
          using "1.prems" \<open>start < en\<close> ts Inr False
          by (subst (asm) BinarySearch.simps) (simp add: mid_def [symmetric])
        have "start \<le> k \<and> k \<le> mid"
          using "1.IH"(2)[OF \<open>start < en\<close> mid_def ts [symmetric] _ _ _ run] Inr False mid by simp
        with mid show ?thesis by simp
      qed
    qed
  qed
qed

lemma BinarySearch_returns:
  assumes "\<forall>i s. \<exists>b. fst (test i s) = Inr b"
  shows "\<exists>k. fst (BinarySearch start en test s) = Inr k"
  using assms
proof (induction start en test s rule: BinarySearch.induct)
  case (1 start en test s)
  show ?case
  proof (cases "start < en")
    case False
    then show ?thesis by (simp add: BinarySearch_stop)
  next
    case True
    define mid where "mid = (start + en) div 2"
    obtain r s1 where ts: "test mid s = (r, s1)" by (cases "test mid s")
    with "1.prems" obtain t where r: "r = Inr t" by (metis fst_conv)
    show ?thesis
    proof (cases t)
      case True
      have "\<exists>k. fst (BinarySearch (mid + 1) en test s1) = Inr k"
        using "1.IH"(1)[OF \<open>start < en\<close> mid_def ts [symmetric] _ _ "1.prems"] r True by simp
      then show ?thesis
        using \<open>start < en\<close> ts r True by (subst BinarySearch.simps) (simp add: mid_def [symmetric])
    next
      case False
      have "\<exists>k. fst (BinarySearch start mid test s1) = Inr k"
        using "1.IH"(2)[OF \<open>start < en\<close> mid_def ts [symmetric] _ _ "1.prems"] r False by simp
      then show ?thesis
        using \<open>start < en\<close> ts r False by (subst BinarySearch.simps) (simp add: mid_def [symmetric])
    qed
  qed
qed

lemma tracing_returns:
  "\<forall>i s. \<exists>b. fst (test i s) = Inr b \<Longrightarrow> \<forall>i s. \<exists>b. fst (tracing test i s) = Inr b"
  by (auto simp: tracing_def split: prod.splits) (metis fst_conv)

section \<open>Properties of FilterPasses\<close>

lemma subseq_filter_enumerate:
  "subseq (map snd (filter P (enumerate n xs))) xs"
  by (induction xs arbitrary: n) auto

lemma set_FilterPasses:
  "set (FilterPasses passes cutoff_idx) =
     {passes ! i | i. i < length passes \<and> (passes ! i \<in> set MANDATORY_PASSES \<or> int i < cutoff_idx)}"
  by (force simp: FilterPasses_def in_set_enumerate_eq image_iff)

lemma FilterPasses_take:
  assumes "\<forall>p\<in>set passes. p \<notin> set MANDATORY_PASSES" and "0 \<le> cutoff_idx"
  shows "FilterPasses passes cutoff_idx = take (nat cutoff_idx) passes"
proof -
  have "map snd (filter (\<lambda>(idx, p). int idx < c + int n) (enumerate n xs)) = take (nat c) xs"
    if "0 \<le> c" for xs :: "string list" and n c
    using that
  proof (induction xs arbitrary: n c)
    case Nil
    then show ?case by simp
  next
    case (Cons x xs)
    show ?case
    proof (cases "c = 0")
      case True
      have "filter (\<lambda>(idx, p). int idx < int n) (enumerate n (x # xs)) = []"
        by (auto simp: filter_empty_conv in_set_enumerate_eq)
      with True show ?thesis by simp
    next
      case False
      with Cons.prems have c: "0 \<le> c - 1" by simp
      have "nat c = Suc (nat (c - 1))" using False Cons.prems by simp
      moreover have "(\<lambda>(idx, p). int idx < c + int n) = (\<lambda>(idx::nat, p::string). int idx < (c - 1) + int (Suc n))"
        by (auto simp: fun_eq_iff)
      ultimately show ?thesis using Cons.IH [OF c, of "Suc n"] False Cons.prems by simp
    qed
  qed
  from this [OF assms(2), of 0 passes] have "map snd (filter (\<lambda>(idx, p). int idx < cutoff_idx) (enumerate 0 passes)) = take (nat cutoff_idx) passes"
    by simp
  moreover have "filter (\<lambda>(idx, opt_pass). opt_pass \<in> set MANDATORY_PASSES \<or> int idx < cutoff_idx) (enumerate 0 passes)
     = filter (\<lambda>(idx, p). int idx < cutoff_idx) (enumerate 0 passes)"
    using assms(1) by (intro filter_cong) (auto simp: in_set_enumerate_eq)
  ultimately show ?thesis by (simp add: FilterPasses_def)
qed

section \<open>Properties of the test environments\<close>

lemma events_emit [simp]: "events (emit e w) = events w @ [e]"
  by (simp add: emit_def)

lemma ext_emit [simp]: "ext (emit e w) = ext w"
  by (simp add: emit_def)

subsection \<open>Loops\<close>



subsection \<open>The file system\<close>







subsection \<open>The host's invalidation\<close>


subsection \<open>The device's invalidation\<close>



subsection \<open>Running the command\<close>


subsection \<open>The demonstration world\<close>




section \<open>Properties of the testable compilation\<close>

lemma bindE_Inr: "m s = (Inr x, s') \<Longrightarrow> bindE m f s = f x s'"
  by (simp add: bindE_def)

lemma bindE_Inl: "m s = (Inl e, s') \<Longrightarrow> bindE m f s = (Inl e, s')"
  by (simp add: bindE_def)

lemma Dex2OatWrapperTestable_init_correct_output:
  "Dex2OatWrapperTestable_init base_cmd' env class_name' reference verbose' w = (Inr self, w')
   \<Longrightarrow> correct_output self = reference"
  by (auto simp: Dex2OatWrapperTestable_init_def bindE_def returnE_def
      split: prod.splits sum.splits)

lemma stub_init:
  "Dex2OatWrapperTestable_init ''dalvikvm32'' stub_env ''Test'' reference False w
     = (Inr (stub_testable reference), w)"
  by (simp add: Dex2OatWrapperTestable_init_def stub_testable_def stub_env_def bindE_def
      returnE_def)

lemma Test_result:
  assumes "PrepareCmd self compiled_methods passes_to_run True w = (Inr cmd, w1)"
    and "RunCommand (test_env self) cmd w1 = (Inr (output, err_output, ret_code), w2)"
  shows "Dex2OatWrapperTestable_Test self compiled_methods passes_to_run w
           = (Inr (ret_code \<noteq> 0 \<or> Some output = correct_output self), w2)"
  using assms by (simp add: Dex2OatWrapperTestable_Test_def bindE_def returnE_def)

text \<open>
  The method list of the wrapper is never empty: without a match \<open>GetAllMethods\<close>
  raises. Its pass list can be empty, when every pass found is one of \<open>NON_PASSES\<close>.
\<close>

lemma Dex2OatWrapperTestable_GetAllMethods_nonempty:
  "Dex2OatWrapperTestable_GetAllMethods find_methods self w = (Inr methods, w') \<Longrightarrow> methods \<noteq> []"
  by (auto simp: Dex2OatWrapperTestable_GetAllMethods_def bindE_def returnE_def raiseE_def Let_def
      split: prod.splits sum.splits if_splits)

lemma Dex2OatWrapperTestable_GetAllPassesForMethod_empty:
  "Dex2OatWrapperTestable_GetAllPassesForMethod (\<lambda>err_output. [''builder'', ''liveness''])
     (stub_testable None) ''m0'' 0 = (Inr [], 0)"
  by (simp add: Dex2OatWrapperTestable_GetAllPassesForMethod_def PrepareCmd_def bindE_def
      returnE_def raiseE_def Let_def stub_testable_def stub_env_def NON_PASSES_def)

lemma stub_PrepareCmd:
  "PrepareCmd (stub_testable reference) (Some [''m0'']) None True w
     = (Inr (''dalvikvm32 -Xcompiler-option --compiled-methods=/tmp/b/compiled_methods''
              @ '' -Xcompiler-option --runtime-arg -Xcompiler-option -verbose:compiler''
              @ '' -classpath classes.dex Test''), w)"
  by (simp add: PrepareCmd_def stub_testable_def stub_env_def bindE_def returnE_def)

lemma stub_RunCommand:
  "RunCommand (test_env (stub_testable reference)) cmd w = (Inr (''42'', '''', w), w)"
  by (simp add: stub_testable_def stub_env_def)

section \<open>Properties of BugSearch\<close>

lemma slice_to_nonneg: "0 \<le> stop \<Longrightarrow> slice_to xs stop = take (nat stop) xs"
  by (simp add: slice_to_def)

lemma index_in_range:
  "0 \<le> i \<Longrightarrow> i < int (length xs) \<Longrightarrow> index xs i s = (Inr (xs ! nat i), s)"
  by (simp add: index_def returnE_def Let_def)

text \<open>
  What \<open>BugSearch\<close> returns, given the outcome of each of its steps: the method list, the
  cutoff \<open>i\<close> of stage one, the pass list and the cutoff \<open>j\<close> of stage two.
\<close>

lemma BugSearch_stage_one:
  assumes "GetAllMethods t s = (Inr all_methods, s1)"
    and "BinarySearch 0 (int (length all_methods)) (method_probe t all_methods) s1 = (Inr i, s2)"
  shows "i = int (length all_methods) \<Longrightarrow> BugSearch t s = (Inr (None, None), s2)"
    and "i \<noteq> int (length all_methods) \<Longrightarrow> i = 0 \<Longrightarrow> BugSearch t s = (Inl outside_compiler, s2)"
  using assms by (simp_all add: BugSearch_def bindE_def returnE_def raiseE_def)

lemma BugSearch_stage_two:
  assumes "GetAllMethods t s = (Inr all_methods, s1)"
    and "BinarySearch 0 (int (length all_methods)) (method_probe t all_methods) s1 = (Inr i, s2)"
    and "0 < i" and "i < int (length all_methods)"
    and "GetAllPassesForMethod t (all_methods ! nat (i - 1)) s2 = (Inr all_passes, s3)"
    and "BinarySearch 0 (int (length all_passes))
           (pass_probe t (all_methods ! nat (i - 1)) all_passes) s3 = (Inr j, s4)"
  shows "j = 0 \<Longrightarrow> BugSearch t s = (Inr (Some (all_methods ! nat (i - 1)), None), s4)"
    and "j \<noteq> 0 \<Longrightarrow> j = int (length all_passes)
           \<Longrightarrow> BugSearch t s = (Inl must_fail_for_some_passes, s4)"
    and "0 < j \<Longrightarrow> j < int (length all_passes)
           \<Longrightarrow> BugSearch t s
               = (Inr (Some (all_methods ! nat (i - 1)), Some (all_passes ! nat (j - 1))), s4)"
proof -
  have idx: "index all_methods (i - 1) s2 = (Inr (all_methods ! nat (i - 1)), s2)"
    using assms(3,4) by (intro index_in_range) simp_all
  have start: "BugSearch t s =
      (if j = 0 then returnE (Some (all_methods ! nat (i - 1)), None)
       else if j = int (length all_passes) then raiseE must_fail_for_some_passes
       else bindE (index all_passes (j - 1))
              (\<lambda>faulty_pass. returnE (Some (all_methods ! nat (i - 1)), Some faulty_pass))) s4"
    using assms idx by (simp add: BugSearch_def bindE_def)
  show "j = 0 \<Longrightarrow> BugSearch t s = (Inr (Some (all_methods ! nat (i - 1)), None), s4)"
    by (simp add: start returnE_def)
  show "j \<noteq> 0 \<Longrightarrow> j = int (length all_passes)
           \<Longrightarrow> BugSearch t s = (Inl must_fail_for_some_passes, s4)"
    by (simp add: start raiseE_def)
  show "BugSearch t s
          = (Inr (Some (all_methods ! nat (i - 1)), Some (all_passes ! nat (j - 1))), s4)"
    if "0 < j" and "j < int (length all_passes)"
  proof -
    have "index all_passes (j - 1) s4 = (Inr (all_passes ! nat (j - 1)), s4)"
      using that by (intro index_in_range) simp_all
    with that show ?thesis by (simp add: start bindE_def returnE_def)
  qed
qed


text \<open>
  A relation between states that every call of the callback respects, and that is
  reflexive and transitive, holds between the states before and after the search.
\<close>

lemma BinarySearch_preserves:
  assumes refl: "\<And>s. R s s"
    and trans: "\<And>a b c. R a b \<Longrightarrow> R b c \<Longrightarrow> R a c"
    and step: "\<And>i s r s'. test i s = (r, s') \<Longrightarrow> R s s'"
    and run: "BinarySearch start en test s = (r, s')"
  shows "R s s'"
  using step run
proof (induction start en test s rule: BinarySearch.induct)
  case (1 start en test s)
  note step = "1.prems"(1) and run = "1.prems"(2)
  show ?case
  proof (cases "start < en")
    case False
    with run show ?thesis by (simp add: BinarySearch_stop refl)
  next
    case True
    define mid where "mid = (start + en) div 2"
    obtain b s1 where ts: "test mid s = (b, s1)" by (cases "test mid s")
    have first: "R s s1" using ts by (rule step)
    show ?thesis
    proof (cases b)
      case (Inl e)
      with run True ts have "s' = s1"
        by (subst (asm) BinarySearch.simps) (simp add: mid_def [symmetric])
      with first show ?thesis by simp
    next
      case (Inr answer)
      show ?thesis
      proof (cases answer)
        case True
        have rest: "BinarySearch (mid + 1) en test s1 = (r, s')"
          using run \<open>start < en\<close> ts Inr True
          by (subst (asm) BinarySearch.simps) (simp add: mid_def [symmetric])
        have "R s1 s'"
          using "1.IH"(1) [OF \<open>start < en\<close> mid_def ts [symmetric] _ _ step rest] Inr True
          by simp
        with first show ?thesis by (rule trans)
      next
        case False
        have rest: "BinarySearch start mid test s1 = (r, s')"
          using run \<open>start < en\<close> ts Inr False
          by (subst (asm) BinarySearch.simps) (simp add: mid_def [symmetric])
        have "R s1 s'"
          using "1.IH"(2) [OF \<open>start < en\<close> mid_def ts [symmetric] _ _ step rest] Inr False
          by simp
        with first show ?thesis by (rule trans)
      qed
    qed
  qed
qed

lemma stage_one_calls_only_refl: "stage_one_calls_only \<sigma> \<sigma>"
  by (simp add: stage_one_calls_only_def)

lemma stage_one_calls_only_trans:
  "stage_one_calls_only a b \<Longrightarrow> stage_one_calls_only b c \<Longrightarrow> stage_one_calls_only a c"
  by (auto simp: stage_one_calls_only_def)

lemma recorded_stage_one:
  "\<not> stage_two_call c \<Longrightarrow> recorded c m \<sigma> = (r, \<sigma>') \<Longrightarrow> stage_one_calls_only \<sigma> \<sigma>'"
  by (auto simp: recorded_def stage_one_calls_only_def split: prod.splits)

lemma method_probe_stage_one:
  "method_probe (recording t) all_methods i \<sigma> = (r, \<sigma>') \<Longrightarrow> stage_one_calls_only \<sigma> \<sigma>'"
  unfolding method_probe_def recording_def
  by (simp, erule recorded_stage_one [rotated]) simp



lemmas run_defs = BugSearch_def bindE_def returnE_def raiseE_def pure_testable_def
  recording_def recorded_def method_probe_def pass_probe_def slice_to_def index_def
  BinarySearch.simps FilterPasses_def MANDATORY_PASSES_def Let_def


text \<open>
  When the cutoff of stage one equals the number of methods, \<open>BugSearch\<close> returns
  \<open>(None, None)\<close>, and the recording double shows no call of stage two.
\<close>

lemma BugSearch_cutoff_at_length:
  assumes "GetAllMethods (recording t) (s, calls) = (Inr all_methods, \<sigma>1)"
    and "BinarySearch 0 (int (length all_methods)) (method_probe (recording t) all_methods) \<sigma>1
           = (Inr (int (length all_methods)), (s2, calls2))"
  shows "BugSearch (recording t) (s, calls) = (Inr (None, None), (s2, calls2))
       \<and> (\<exists>new. calls2 = calls @ new \<and> (\<forall>c\<in>set new. \<not> stage_two_call c))"
proof
  show "BugSearch (recording t) (s, calls) = (Inr (None, None), (s2, calls2))"
    using assms by (rule BugSearch_stage_one(1)) simp
  have a: "stage_one_calls_only (s, calls) \<sigma>1"
    using assms(1) unfolding recording_def by (simp, elim recorded_stage_one [rotated]) simp
  have b: "stage_one_calls_only \<sigma>1 (s2, calls2)"
    using stage_one_calls_only_refl stage_one_calls_only_trans method_probe_stage_one assms(2)
    by (rule BinarySearch_preserves)
  from stage_one_calls_only_trans [OF a b]
  show "\<exists>new. calls2 = calls @ new \<and> (\<forall>c\<in>set new. \<not> stage_two_call c)"
    by (simp add: stage_one_calls_only_def)
qed

text \<open>
  Stage one never probes the full method list itself: its callback is called at indices
  below the number of methods only. Under the monotonicity that the search assumes, a
  probe of the full list that passes means that every prefix passes, and then the cutoff
  is the number of methods.
\<close>

lemma BinarySearch_all_pass:
  assumes "0 \<le> N"
    and "\<forall>i s. 0 \<le> i \<and> i < N \<longrightarrow> fst (test i s) = Inr True"
  shows "fst (BinarySearch 0 N test s) = Inr N"
  using assms by (intro BinarySearch_cutoff) simp_all

lemma fst_recorded: "fst (recorded c m \<sigma>) = fst (m (fst \<sigma>))"
  by (simp add: recorded_def split: prod.splits)

lemmas wrapper_defs = Dex2OatWrapperTestable_testable_def Dex2OatWrapperTestable_GetAllMethods_def
  Dex2OatWrapperTestable_GetAllPassesForMethod_def Dex2OatWrapperTestable_Test_def PrepareCmd_def
  stub_testable_def stub_env_def

text \<open>
  Claim C1. Let the callback answer \<open>True\<close> at every index below a cutoff \<open>k\<close> and
  \<open>False\<close> at every index from \<open>k\<close> up to \<open>N\<close>, with \<open>0 \<le> k \<le> N\<close>. Then
  \<open>BinarySearch 0 N\<close> returns exactly \<open>k\<close>; the boundary cases \<open>k = 0\<close> and \<open>k = N\<close>
  are included. The callback may be any probe, with or without effects on the state.
\<close>

theorem BinarySearch_finds_cutoff:
  assumes "0 \<le> k" and "k \<le> N"
    and "\<forall>i s. 0 \<le> i \<and> i < k \<longrightarrow> fst (test i s) = Inr True"
    and "\<forall>i s. k \<le> i \<and> i < N \<longrightarrow> fst (test i s) = Inr False"
  shows "fst (BinarySearch 0 N test s) = Inr k"
  using assms by (rule BinarySearch_cutoff)

theorem BinarySearch_finds_cutoff_witness:
  "(0::int) \<le> 2 \<and> (2::int) \<le> 4
   \<and> fst (BinarySearch 0 4 (\<lambda>i. returnE (i < 2)) ()) = Inr 2
   \<and> fst (BinarySearch 0 4 (\<lambda>i. returnE (i < 0)) ()) = Inr 0
   \<and> fst (BinarySearch 0 4 (\<lambda>i. returnE (i < 4)) ()) = Inr 4"
  using BinarySearch_finds_cutoff [of 2 4 "\<lambda>i. returnE (i < 2)" "()"]
    BinarySearch_finds_cutoff [of 0 4 "\<lambda>i. returnE (i < 0)" "()"]
    BinarySearch_finds_cutoff [of 4 4 "\<lambda>i. returnE (i < 4)" "()"]
  by (simp add: returnE_def)

text \<open>
  Claim C9. For \<open>start \<le> en\<close> and any callback, monotone or not, \<open>BinarySearch\<close> is a total
  function (its termination is proved with the definition); run on the recording double,
  it calls the callback only at indices in \<open>[start, en)\<close>; the index it returns lies in
  \<open>[start, en]\<close>; it does return an index whenever the callback itself never raises; and
  for \<open>start = en\<close> it returns \<open>start\<close> with no call and the state untouched.
\<close>

theorem BinarySearch_terminates_in_range:
  assumes "start \<le> en"
    and "BinarySearch start en (tracing test) (s, calls) = (r, (s', calls'))"
  shows "(\<exists>new. calls' = calls @ new \<and> (\<forall>i\<in>set new. start \<le> i \<and> i < en))
       \<and> (\<forall>k. r = Inr k \<longrightarrow> start \<le> k \<and> k \<le> en)
       \<and> ((\<forall>i s. \<exists>b. fst (test i s) = Inr b) \<longrightarrow> (\<exists>k. r = Inr k))
       \<and> (start = en \<longrightarrow> r = Inr start \<and> s' = s \<and> calls' = calls)"
proof (intro conjI allI impI)
  show "\<exists>new. calls' = calls @ new \<and> (\<forall>i\<in>set new. start \<le> i \<and> i < en)"
    using assms(2) by (rule BinarySearch_tracing_calls)
next
  fix k assume "r = Inr k"
  with assms BinarySearch_in_range [of start en "tracing test" "(s, calls)" k "(s', calls')"]
  show "start \<le> k" and "k \<le> en" by simp_all
next
  assume "\<forall>i s. \<exists>b. fst (test i s) = Inr b"
  then have "\<forall>i s. \<exists>b. fst (tracing test i s) = Inr b" by (rule tracing_returns)
  from BinarySearch_returns [OF this, of start en "(s, calls)"] assms(2)
  show "\<exists>k. r = Inr k" by simp
next
  assume "start = en"
  with assms(2) show "r = Inr start" and "s' = s" and "calls' = calls"
    by (simp_all add: BinarySearch_stop)
qed

theorem BinarySearch_terminates_in_range_witness:
  "(0::int) \<le> 4
   \<and> BinarySearch 0 4 (tracing (\<lambda>i. returnE (i = 0 \<or> i = 2))) ((), []) = (Inr 3, ((), [2, 3]))
   \<and> (0::int) \<le> 3 \<and> (3::int) \<le> 4
   \<and> BinarySearch 3 3 (tracing (\<lambda>i. returnE (i = 0 \<or> i = 2))) ((), []) = (Inr 3, ((), []))"
proof -
  have h1: "(0::int) \<le> 4" by simp
  have h2: "BinarySearch 0 4 (tracing (\<lambda>i. returnE (i = 0 \<or> i = 2))) ((), [])
            = (Inr 3, ((), [2, 3]))"
    by (simp add: BinarySearch.simps tracing_def returnE_def)
  have h3: "BinarySearch 3 3 (tracing (\<lambda>i. returnE (i = 0 \<or> i = 2))) ((), [])
            = (Inr 3, ((), []))"
    by (simp add: BinarySearch.simps)
  from BinarySearch_terminates_in_range [OF h1 h2] h1 h2 h3 show ?thesis by simp
qed

text \<open>
  Claim C2. For every pass list and every cutoff index (in particular every cutoff in
  \<open>[0, length passes]\<close>), \<open>FilterPasses passes cutoff_idx\<close> contains every mandatory pass
  that occurs in \<open>passes\<close>, is a subsequence of \<open>passes\<close> (same elements in the same
  relative order), and contains every pass whose index is below the cutoff.
\<close>

theorem FilterPasses_keeps_mandatory_and_prefix:
  "(\<forall>p\<in>set passes. p \<in> set MANDATORY_PASSES \<longrightarrow> p \<in> set (FilterPasses passes cutoff_idx))
   \<and> subseq (FilterPasses passes cutoff_idx) passes
   \<and> (\<forall>i. i < length passes \<and> int i < cutoff_idx \<longrightarrow> passes ! i \<in> set (FilterPasses passes cutoff_idx))"
proof (intro conjI)
  show "\<forall>p\<in>set passes. p \<in> set MANDATORY_PASSES \<longrightarrow> p \<in> set (FilterPasses passes cutoff_idx)"
  proof (intro ballI impI)
    fix p assume "p \<in> set passes" and m: "p \<in> set MANDATORY_PASSES"
    then obtain i where "i < length passes" and "passes ! i = p"
      by (auto simp: in_set_conv_nth)
    with m show "p \<in> set (FilterPasses passes cutoff_idx)"
      unfolding set_FilterPasses by blast
  qed
  show "subseq (FilterPasses passes cutoff_idx) passes"
    unfolding FilterPasses_def by (rule subseq_filter_enumerate)
  show "\<forall>i. i < length passes \<and> int i < cutoff_idx \<longrightarrow> passes ! i \<in> set (FilterPasses passes cutoff_idx)"
    unfolding set_FilterPasses by auto
qed

theorem FilterPasses_keeps_mandatory_and_prefix_witness:
  "FilterPasses [''a'', ''pc_relative_fixups_x86'', ''b'', ''x86_memory_operand_generation'', ''c''] 1
     = [''a'', ''pc_relative_fixups_x86'', ''x86_memory_operand_generation'']
   \<and> ''x86_memory_operand_generation'' \<in> set MANDATORY_PASSES
   \<and> ''x86_memory_operand_generation'' \<in> set (FilterPasses [''a'', ''pc_relative_fixups_x86'', ''b'', ''x86_memory_operand_generation'', ''c''] 1)
   \<and> subseq (FilterPasses [''a'', ''pc_relative_fixups_x86'', ''b'', ''x86_memory_operand_generation'', ''c''] 1)
        [''a'', ''pc_relative_fixups_x86'', ''b'', ''x86_memory_operand_generation'', ''c'']
   \<and> ''a'' \<in> set (FilterPasses [''a'', ''pc_relative_fixups_x86'', ''b'', ''x86_memory_operand_generation'', ''c''] 1)"
proof -
  let ?ps = "[''a'', ''pc_relative_fixups_x86'', ''b'', ''x86_memory_operand_generation'', ''c'']"
  have m: "''x86_memory_operand_generation'' \<in> set MANDATORY_PASSES"
    by (simp add: MANDATORY_PASSES_def)
  have v: "FilterPasses ?ps 1 = [''a'', ''pc_relative_fixups_x86'', ''x86_memory_operand_generation'']"
    by (simp add: FilterPasses_def MANDATORY_PASSES_def)
  note t = FilterPasses_keeps_mandatory_and_prefix [of ?ps 1]
  from t have "''x86_memory_operand_generation'' \<in> set (FilterPasses ?ps 1)"
    using m by simp
  moreover from t have "subseq (FilterPasses ?ps 1) ?ps" by simp
  moreover from t have "?ps ! 0 \<in> set (FilterPasses ?ps 1)" by (elim conjE allE [of _ 0]) simp
  ultimately show ?thesis using m v by simp
qed



text \<open>
  Claim C3. Whenever the environment produces an execution result
  \<open>(output, err_output, ret_code)\<close> for the command of a probe, \<open>Test\<close> returns \<open>True\<close>
  if and only if the exit code is non-zero or the captured standard output equals the
  reference output; in particular a non-zero exit code makes it \<open>True\<close> whatever was
  captured.
\<close>

theorem Test_true_iff_nonzero_exit_or_reference_output:
  assumes "PrepareCmd self compiled_methods passes_to_run True w = (Inr cmd, w1)"
    and "RunCommand (test_env self) cmd w1 = (Inr (output, err_output, ret_code), w2)"
  shows "Dex2OatWrapperTestable_Test self compiled_methods passes_to_run w
           = (Inr (ret_code \<noteq> 0 \<or> Some output = correct_output self), w2)
       \<and> (ret_code \<noteq> 0 \<longrightarrow>
            Dex2OatWrapperTestable_Test self compiled_methods passes_to_run w = (Inr True, w2))"
  using Test_result [OF assms] by simp

theorem Test_true_iff_nonzero_exit_or_reference_output_witness:
  "Dex2OatWrapperTestable_Test (stub_testable (Some ''0'')) (Some [''m0'']) None 3 = (Inr True, 3)
   \<and> Dex2OatWrapperTestable_Test (stub_testable (Some ''42'')) (Some [''m0'']) None 0 = (Inr True, 0)
   \<and> Dex2OatWrapperTestable_Test (stub_testable (Some ''0'')) (Some [''m0'']) None 0 = (Inr False, 0)"
  using Test_true_iff_nonzero_exit_or_reference_output [OF stub_PrepareCmd stub_RunCommand, of "Some ''0''" 3]
    Test_true_iff_nonzero_exit_or_reference_output [OF stub_PrepareCmd stub_RunCommand, of "Some ''42''" 0]
    Test_true_iff_nonzero_exit_or_reference_output [OF stub_PrepareCmd stub_RunCommand, of "Some ''0''" 0]
  by (simp add: stub_testable_def)

text \<open>
  Claim C10. With no reference output (\<open>correct_output\<close> is \<open>None\<close>, the default of the
  constructor), \<open>Test\<close> returns \<open>True\<close> if and only if the exit code is non-zero: a run
  that ends with exit code 0 is scored \<open>False\<close> whatever it printed.
\<close>

theorem Test_without_reference_output:
  assumes "correct_output self = None"
    and "PrepareCmd self compiled_methods passes_to_run True w = (Inr cmd, w1)"
    and "RunCommand (test_env self) cmd w1 = (Inr (output, err_output, ret_code), w2)"
  shows "Dex2OatWrapperTestable_Test self compiled_methods passes_to_run w
           = (Inr (ret_code \<noteq> 0), w2)
       \<and> (ret_code = 0 \<longrightarrow>
            Dex2OatWrapperTestable_Test self compiled_methods passes_to_run w = (Inr False, w2))"
  using Test_result [OF assms(2,3)] assms(1) by simp

theorem Test_without_reference_output_witness:
  "Dex2OatWrapperTestable_init ''dalvikvm32'' stub_env ''Test'' None False 0
     = (Inr (stub_testable None), 0)
   \<and> correct_output (stub_testable None) = None
   \<and> Dex2OatWrapperTestable_Test (stub_testable None) (Some [''m0'']) None 0 = (Inr False, 0)
   \<and> Dex2OatWrapperTestable_Test (stub_testable None) (Some [''m0'']) None 1 = (Inr True, 1)"
proof -
  have c: "correct_output (stub_testable None) = None"
    by (rule Dex2OatWrapperTestable_init_correct_output [OF stub_init])
  from Test_without_reference_output [OF c stub_PrepareCmd stub_RunCommand, of 0]
    Test_without_reference_output [OF c stub_PrepareCmd stub_RunCommand, of 1] c stub_init
  show ?thesis by simp
qed

text \<open>
  Claim C5, as the code has it. Stage one probes proper prefixes of the method list only,
  never the full list, and takes the probe to be monotone. Let the probe be monotone on
  the prefixes of the method list (when it passes on a prefix, it passes on every shorter
  prefix, in whatever state it is called), and let it pass on the full method list. Then
  the cutoff of stage one is the number of methods, \<open>BugSearch\<close> returns \<open>(None, None)\<close>,
  and the recording double shows no call of stage two from the beginning of the search to
  its end: no pass list is fetched and no probe is restricted to a list of passes.
\<close>

theorem BugSearch_no_bug_skips_stage_two:
  assumes methods: "GetAllMethods t s = (Inr all_methods, s1)"
    and monotone:
      "\<forall>i j \<sigma> \<sigma>'. i \<le> j \<and> j \<le> length all_methods
          \<and> fst (Test t (Some (take j all_methods)) None \<sigma>) = Inr True
          \<longrightarrow> fst (Test t (Some (take i all_methods)) None \<sigma>') = Inr True"
    and full: "fst (Test t (Some all_methods) None \<sigma>0) = Inr True"
  shows "fst (BinarySearch 0 (int (length all_methods)) (method_probe t all_methods) s1)
           = Inr (int (length all_methods))
       \<and> fst (BugSearch t s) = Inr (None, None)
       \<and> (\<exists>s2 new. BugSearch (recording t) (s, calls) = (Inr (None, None), (s2, calls @ new))
             \<and> (\<forall>c\<in>set new. \<not> stage_two_call c))"
proof (intro conjI)
  let ?N = "int (length all_methods)"
  have passes: "fst (Test t (Some (take i all_methods)) None \<sigma>) = Inr True"
    if "i \<le> length all_methods" for i \<sigma>
  proof -
    have "fst (Test t (Some (take (length all_methods) all_methods)) None \<sigma>0) = Inr True"
      using full by simp
    with that monotone show ?thesis by blast
  qed
  have plain: "\<forall>i \<sigma>. 0 \<le> i \<and> i < ?N \<longrightarrow> fst (method_probe t all_methods i \<sigma>) = Inr True"
  proof (intro allI impI)
    fix i :: int and \<sigma> assume i: "0 \<le> i \<and> i < ?N"
    then have "nat i \<le> length all_methods" by linarith
    then have "fst (Test t (Some (take (nat i) all_methods)) None \<sigma>) = Inr True" by (rule passes)
    with i show "fst (method_probe t all_methods i \<sigma>) = Inr True"
      by (simp add: method_probe_def slice_to_nonneg)
  qed
  show cutoff: "fst (BinarySearch 0 ?N (method_probe t all_methods) s1) = Inr ?N"
    using _ plain by (rule BinarySearch_all_pass) simp
  then obtain s2 where "BinarySearch 0 ?N (method_probe t all_methods) s1 = (Inr ?N, s2)"
    by (metis prod.collapse)
  with methods have "BugSearch t s = (Inr (None, None), s2)"
    by (rule BugSearch_stage_one(1)) simp
  then show "fst (BugSearch t s) = Inr (None, None)" by simp
  have g: "GetAllMethods (recording t) (s, calls) = (Inr all_methods, (s1, calls @ [CallGetAllMethods]))"
    using methods by (simp add: recording_def recorded_def)
  have "\<forall>i \<sigma>. 0 \<le> i \<and> i < ?N \<longrightarrow> fst (method_probe (recording t) all_methods i \<sigma>) = Inr True"
  proof (intro allI impI)
    fix i :: int and \<sigma> :: "'a \<times> call list" assume i: "0 \<le> i \<and> i < ?N"
    with plain have "fst (method_probe t all_methods i (fst \<sigma>)) = Inr True" by blast
    then show "fst (method_probe (recording t) all_methods i \<sigma>) = Inr True"
      by (simp add: method_probe_def recording_def fst_recorded)
  qed
  with BinarySearch_all_pass [of ?N "method_probe (recording t) all_methods"]
  have "fst (BinarySearch 0 ?N (method_probe (recording t) all_methods)
               (s1, calls @ [CallGetAllMethods])) = Inr ?N"
    by simp
  then obtain s2' calls2 where
    b: "BinarySearch 0 ?N (method_probe (recording t) all_methods) (s1, calls @ [CallGetAllMethods])
          = (Inr ?N, (s2', calls2))"
    by (metis prod.collapse)
  from BugSearch_cutoff_at_length [OF g b]
  show "\<exists>s2 new. BugSearch (recording t) (s, calls) = (Inr (None, None), (s2, calls @ new))
          \<and> (\<forall>c\<in>set new. \<not> stage_two_call c)"
    by blast
qed

theorem BugSearch_no_bug_skips_stage_two_witness:
  "GetAllMethods passing_testable () = (Inr [''m0'', ''m1''], ())
   \<and> fst (Test passing_testable (Some [''m0'', ''m1'']) None ()) = Inr True
   \<and> fst (BinarySearch 0 2 (method_probe passing_testable [''m0'', ''m1'']) ()) = Inr 2
   \<and> fst (BugSearch passing_testable ()) = Inr (None, None)
   \<and> BugSearch (recording passing_testable) ((), [])
       = (Inr (None, None), ((), [CallGetAllMethods, CallTest (Some [''m0'']) None]))"
proof -
  let ?ms = "[''m0'', ''m1'']"
  have h1: "GetAllMethods passing_testable () = (Inr ?ms, ())"
    by (simp add: passing_testable_def run_defs)
  have h2: "\<forall>i j \<sigma> \<sigma>'. i \<le> j \<and> j \<le> length ?ms
          \<and> fst (Test passing_testable (Some (take j ?ms)) None \<sigma>) = Inr True
          \<longrightarrow> fst (Test passing_testable (Some (take i ?ms)) None \<sigma>') = Inr True"
    by (simp add: passing_testable_def pure_testable_def returnE_def)
  have h3: "fst (Test passing_testable (Some ?ms) None ()) = Inr True"
    by (simp add: passing_testable_def pure_testable_def returnE_def)
  have run: "BugSearch (recording passing_testable) ((), [])
       = (Inr (None, None), ((), [CallGetAllMethods, CallTest (Some [''m0'']) None]))"
    by (simp add: passing_testable_def run_defs)
  from BugSearch_no_bug_skips_stage_two [OF h1 h2 h3, of "[]"] h1 h3 run
  show ?thesis by simp
qed

theorem BugSearch_no_bug_counterexample:
  "GetAllMethods (two_by_two (\<lambda>compiled_methods passes_to_run. compiled_methods \<noteq> Some [''m0''])) ()
     = (Inr [''m0'', ''m1''], ())
   \<and> Test (two_by_two (\<lambda>compiled_methods passes_to_run. compiled_methods \<noteq> Some [''m0'']))
         (Some [''m0'', ''m1'']) None () = (Inr True, ())
   \<and> BugSearch (recording
         (two_by_two (\<lambda>compiled_methods passes_to_run. compiled_methods \<noteq> Some [''m0'']))) ((), [])
       = (Inr (Some ''m0'', None),
          ((), [CallGetAllMethods, CallTest (Some [''m0'']) None, CallTest (Some []) None,
                CallGetAllPassesForMethod ''m0'', CallTest (Some [''m0'']) (Some [''p0'']),
                CallTest (Some [''m0'']) (Some [])]))"
  by (simp add: two_by_two_def run_defs)

text \<open>
  Claim C6. The testable of the program is the wrapper, whose method list is never empty:
  \<open>GetAllMethods\<close> raises instead of returning an empty list. For it, whenever the cutoff
  of stage one is 0 (already the probe that compiles no method fails), \<open>BugSearch\<close> raises
  the fatal error "Testable fails with no methods compiled. Perhaps issue lies outside of
  compiler." and returns no pair of method and pass.
\<close>

theorem BugSearch_zero_cutoff_outside_compiler:
  assumes "GetAllMethods (Dex2OatWrapperTestable_testable find_methods find_passes self) w
             = (Inr all_methods, w1)"
    and "BinarySearch 0 (int (length all_methods))
           (method_probe (Dex2OatWrapperTestable_testable find_methods find_passes self) all_methods)
           w1 = (Inr 0, w2)"
  shows "BugSearch (Dex2OatWrapperTestable_testable find_methods find_passes self) w
           = (Inl outside_compiler, w2)"
proof -
  have "all_methods \<noteq> []"
    using assms(1) Dex2OatWrapperTestable_GetAllMethods_nonempty [of find_methods self w all_methods w1]
    by (simp add: Dex2OatWrapperTestable_testable_def)
  with assms show ?thesis by (intro BugSearch_stage_one(2)) simp_all
qed

theorem BugSearch_zero_cutoff_outside_compiler_witness:
  "GetAllMethods (Dex2OatWrapperTestable_testable (\<lambda>err_output. [''m0'', ''m1''])
       (\<lambda>err_output. [''p0'']) (stub_testable (Some ''0''))) 0 = (Inr [''m0'', ''m1''], 0)
   \<and> Test (Dex2OatWrapperTestable_testable (\<lambda>err_output. [''m0'', ''m1''])
       (\<lambda>err_output. [''p0'']) (stub_testable (Some ''0''))) (Some []) None 0 = (Inr False, 0)
   \<and> BinarySearch 0 2 (method_probe (Dex2OatWrapperTestable_testable (\<lambda>err_output. [''m0'', ''m1''])
       (\<lambda>err_output. [''p0'']) (stub_testable (Some ''0''))) [''m0'', ''m1'']) 0 = (Inr 0, 0)
   \<and> BugSearch (Dex2OatWrapperTestable_testable (\<lambda>err_output. [''m0'', ''m1''])
       (\<lambda>err_output. [''p0'']) (stub_testable (Some ''0''))) 0 = (Inl outside_compiler, 0)"
proof -
  let ?t = "Dex2OatWrapperTestable_testable (\<lambda>err_output. [''m0'', ''m1''])
       (\<lambda>err_output. [''p0'']) (stub_testable (Some ''0''))"
  have h1: "GetAllMethods ?t 0 = (Inr [''m0'', ''m1''], 0)"
    by (simp add: wrapper_defs run_defs)
  have h2: "BinarySearch 0 (int (length [''m0'', ''m1''])) (method_probe ?t [''m0'', ''m1'']) 0
              = (Inr 0, 0)"
    by (simp add: wrapper_defs run_defs)
  have h3: "Test ?t (Some []) None 0 = (Inr False, 0)"
    by (simp add: wrapper_defs run_defs)
  from BugSearch_zero_cutoff_outside_compiler [OF h1 h2] h1 h2 h3 show ?thesis by simp
qed

text \<open>
  Claim C4. Take any testable with the methods \<open>[m0, m1, m2, m3]\<close>, whose probe of the
  prefix \<open>[0:i]\<close> of the methods fails exactly for \<open>i \<ge> 2\<close>, with the passes
  \<open>[p0, p1, p2]\<close> for \<open>m1\<close>, none of them mandatory, and whose probe of \<open>m1\<close> with the
  prefix \<open>[0:j]\<close> of the passes fails exactly for \<open>j \<ge> 1\<close>. Then \<open>BugSearch\<close> reports
  the method \<open>m1\<close> and the pass \<open>p0\<close>.
\<close>

theorem BugSearch_synthetic_testable:
  assumes methods: "\<forall>s. fst (GetAllMethods t s) = Inr [m0, m1, m2, m3]"
    and method_probes:
      "\<forall>i s. i \<le> 4 \<longrightarrow> fst (Test t (Some (take i [m0, m1, m2, m3])) None s) = Inr (i < 2)"
    and passes: "\<forall>s. fst (GetAllPassesForMethod t m1 s) = Inr [p0, p1, p2]"
    and optional: "\<forall>p\<in>set [p0, p1, p2]. p \<notin> set MANDATORY_PASSES"
    and pass_probes:
      "\<forall>j s. j \<le> 3 \<longrightarrow> fst (Test t (Some [m1]) (Some (take j [p0, p1, p2])) s) = Inr (j < 1)"
  shows "fst (BugSearch t s) = Inr (Some m1, Some p0)"
proof -
  let ?ms = "[m0, m1, m2, m3]" and ?ps = "[p0, p1, p2]"
  obtain s1 where g: "GetAllMethods t s = (Inr ?ms, s1)"
    using methods by (metis prod.collapse)
  have "fst (BinarySearch 0 (int (length ?ms)) (method_probe t ?ms) s1) = Inr 2"
  proof (rule BinarySearch_cutoff)
    show "\<forall>i s. 0 \<le> i \<and> i < 2 \<longrightarrow> fst (method_probe t ?ms i s) = Inr True"
    proof (intro allI impI)
      fix i :: int and s assume "0 \<le> i \<and> i < 2"
      then have "nat i \<le> 4" "nat i < 2" by auto
      with method_probes have "fst (Test t (Some (take (nat i) ?ms)) None s) = Inr True"
        by metis
      with \<open>0 \<le> i \<and> i < 2\<close> show "fst (method_probe t ?ms i s) = Inr True"
        by (simp add: method_probe_def slice_to_nonneg)
    qed
    show "\<forall>i s. 2 \<le> i \<and> i < int (length ?ms) \<longrightarrow> fst (method_probe t ?ms i s) = Inr False"
    proof (intro allI impI)
      fix i :: int and s assume i: "2 \<le> i \<and> i < int (length ?ms)"
      then have "nat i \<le> 4" "\<not> nat i < 2" by auto
      with method_probes have "fst (Test t (Some (take (nat i) ?ms)) None s) = Inr False"
        by metis
      with i show "fst (method_probe t ?ms i s) = Inr False"
        by (simp add: method_probe_def slice_to_nonneg)
    qed
  qed simp_all
  then obtain s2 where b1: "BinarySearch 0 (int (length ?ms)) (method_probe t ?ms) s1 = (Inr 2, s2)"
    by (metis prod.collapse)
  have m: "?ms ! nat (2 - 1) = m1" by simp
  obtain s3 where p: "GetAllPassesForMethod t (?ms ! nat (2 - 1)) s2 = (Inr ?ps, s3)"
    using passes unfolding m by (metis prod.collapse)
  have "fst (BinarySearch 0 (int (length ?ps)) (pass_probe t m1 ?ps) s3) = Inr 1"
  proof (rule BinarySearch_cutoff)
    show "\<forall>j s. 0 \<le> j \<and> j < 1 \<longrightarrow> fst (pass_probe t m1 ?ps j s) = Inr True"
    proof (intro allI impI)
      fix j :: int and s assume j: "0 \<le> j \<and> j < 1"
      then have "nat j \<le> 3" "nat j < 1" by auto
      with pass_probes have "fst (Test t (Some [m1]) (Some (take (nat j) ?ps)) s) = Inr True"
        by metis
      with j show "fst (pass_probe t m1 ?ps j s) = Inr True"
        using FilterPasses_take [OF optional, of j] by (simp add: pass_probe_def)
    qed
    show "\<forall>j s. 1 \<le> j \<and> j < int (length ?ps) \<longrightarrow> fst (pass_probe t m1 ?ps j s) = Inr False"
    proof (intro allI impI)
      fix j :: int and s assume j: "1 \<le> j \<and> j < int (length ?ps)"
      then have "nat j \<le> 3" "\<not> nat j < 1" by auto
      with pass_probes have "fst (Test t (Some [m1]) (Some (take (nat j) ?ps)) s) = Inr False"
        by metis
      with j show "fst (pass_probe t m1 ?ps j s) = Inr False"
        using FilterPasses_take [OF optional, of j] by (simp add: pass_probe_def)
    qed
  qed simp_all
  then obtain s4 where
    b2: "BinarySearch 0 (int (length ?ps)) (pass_probe t (?ms ! nat (2 - 1)) ?ps) s3 = (Inr 1, s4)"
    unfolding m by (metis prod.collapse)
  have "BugSearch t s = (Inr (Some (?ms ! nat (2 - 1)), Some (?ps ! nat (1 - 1))), s4)"
    using g b1 _ _ p b2 by (rule BugSearch_stage_two(3)) simp_all
  then show ?thesis by simp
qed


theorem BugSearch_synthetic_testable_witness:
  "fst (GetAllMethods synthetic_testable ()) = Inr [''m0'', ''m1'', ''m2'', ''m3'']
   \<and> fst (GetAllPassesForMethod synthetic_testable ''m1'' ()) = Inr [''p0'', ''p1'', ''p2'']
   \<and> fst (Test synthetic_testable (Some (take 1 [''m0'', ''m1'', ''m2'', ''m3''])) None ()) = Inr True
   \<and> fst (Test synthetic_testable (Some (take 2 [''m0'', ''m1'', ''m2'', ''m3''])) None ()) = Inr False
   \<and> fst (Test synthetic_testable (Some [''m1'']) (Some (take 0 [''p0'', ''p1'', ''p2''])) ()) = Inr True
   \<and> fst (Test synthetic_testable (Some [''m1'']) (Some (take 1 [''p0'', ''p1'', ''p2''])) ()) = Inr False
   \<and> fst (BugSearch synthetic_testable ()) = Inr (Some ''m1'', Some ''p0'')"
proof -
  let ?ms = "[''m0'', ''m1'', ''m2'', ''m3'']" and ?ps = "[''p0'', ''p1'', ''p2'']"
  have h1: "\<forall>s. fst (GetAllMethods synthetic_testable s) = Inr ?ms"
    by (simp add: synthetic_testable_def pure_testable_def returnE_def)
  have h2: "\<forall>i s. i \<le> 4 \<longrightarrow> fst (Test synthetic_testable (Some (take i ?ms)) None s) = Inr (i < 2)"
  proof (intro allI impI)
    fix i :: nat and s :: unit assume "i \<le> 4"
    then have "i = 0 \<or> i = 1 \<or> i = 2 \<or> i = 3 \<or> i = 4" by arith
    then show "fst (Test synthetic_testable (Some (take i ?ms)) None s) = Inr (i < 2)"
      by (elim disjE) (simp_all add: synthetic_testable_def pure_testable_def returnE_def fails_with_def)
  qed
  have h3: "\<forall>s. fst (GetAllPassesForMethod synthetic_testable ''m1'' s) = Inr ?ps"
    by (simp add: synthetic_testable_def pure_testable_def returnE_def)
  have h4: "\<forall>p\<in>set ?ps. p \<notin> set MANDATORY_PASSES"
    by (simp add: MANDATORY_PASSES_def)
  have h5: "\<forall>j s. j \<le> 3 \<longrightarrow>
              fst (Test synthetic_testable (Some [''m1'']) (Some (take j ?ps)) s) = Inr (j < 1)"
  proof (intro allI impI)
    fix j :: nat and s :: unit assume "j \<le> 3"
    then have "j = 0 \<or> j = 1 \<or> j = 2 \<or> j = 3" by arith
    then show "fst (Test synthetic_testable (Some [''m1'']) (Some (take j ?ps)) s) = Inr (j < 1)"
      by (elim disjE) (simp_all add: synthetic_testable_def pure_testable_def returnE_def fails_with_def)
  qed
  have "fst (BugSearch synthetic_testable ()) = Inr (Some ''m1'', Some ''p0'')"
    by (rule BugSearch_synthetic_testable [OF h1 h2 h3 h4 h5])
  moreover have
    "fst (Test synthetic_testable (Some (take 1 ?ms)) None ()) = Inr True"
    "fst (Test synthetic_testable (Some (take 2 ?ms)) None ()) = Inr False"
    "fst (Test synthetic_testable (Some [''m1'']) (Some (take 0 ?ps)) ()) = Inr True"
    "fst (Test synthetic_testable (Some [''m1'']) (Some (take 1 ?ps)) ()) = Inr False"
    by (simp_all add: synthetic_testable_def pure_testable_def returnE_def fails_with_def)
  ultimately show ?thesis using h1 h3 by simp
qed

text \<open>
  Claim C7, as the code has it. Let stage one have singled out a method. When the cutoff
  of stage two is 0, \<open>BugSearch\<close> returns that method with no pass, \<open>(method, None)\<close>.
  When the cutoff of stage two equals the length of the method's pass list and that list is
  not empty, \<open>BugSearch\<close> fails the assertion "Method must fail for some passes." and
  returns nothing. The comparison with 0 comes first in the code, so for an empty pass list
  the outcome is \<open>(method, None)\<close>.
\<close>

theorem BugSearch_stage_two_boundaries:
  assumes "GetAllMethods t s = (Inr all_methods, s1)"
    and "BinarySearch 0 (int (length all_methods)) (method_probe t all_methods) s1 = (Inr i, s2)"
    and "0 < i" and "i < int (length all_methods)"
    and "GetAllPassesForMethod t (all_methods ! nat (i - 1)) s2 = (Inr all_passes, s3)"
    and "BinarySearch 0 (int (length all_passes))
           (pass_probe t (all_methods ! nat (i - 1)) all_passes) s3 = (Inr j, s4)"
  shows "(j = 0 \<longrightarrow> BugSearch t s = (Inr (Some (all_methods ! nat (i - 1)), None), s4))
       \<and> (j = int (length all_passes) \<and> all_passes \<noteq> [] \<longrightarrow>
            BugSearch t s = (Inl must_fail_for_some_passes, s4))"
  using BugSearch_stage_two(1,2) [OF assms] by simp

theorem BugSearch_stage_two_boundaries_witness:
  "BugSearch (two_by_two (\<lambda>compiled_methods passes_to_run.
       case compiled_methods of None \<Rightarrow> False | Some methods \<Rightarrow> ''m0'' \<notin> set methods)) ()
     = (Inr (Some ''m0'', None), ())
   \<and> BugSearch (two_by_two (\<lambda>compiled_methods passes_to_run.
       case passes_to_run of Some passes \<Rightarrow> True
       | None \<Rightarrow> (case compiled_methods of None \<Rightarrow> False | Some methods \<Rightarrow> ''m0'' \<notin> set methods))) ()
     = (Inl must_fail_for_some_passes, ())"
proof -
  let ?ms = "[''m0'', ''m1'']" and ?ps = "[''p0'', ''p1'']"
  let ?a = "two_by_two (\<lambda>compiled_methods passes_to_run.
       case compiled_methods of None \<Rightarrow> False | Some methods \<Rightarrow> ''m0'' \<notin> set methods)"
  let ?b = "two_by_two (\<lambda>compiled_methods passes_to_run.
       case passes_to_run of Some passes \<Rightarrow> True
       | None \<Rightarrow> (case compiled_methods of None \<Rightarrow> False | Some methods \<Rightarrow> ''m0'' \<notin> set methods))"
  have i: "(0::int) < 1" "(1::int) < int (length ?ms)" by simp_all
  have a1: "GetAllMethods ?a () = (Inr ?ms, ())" by (simp add: two_by_two_def run_defs)
  have a2: "BinarySearch 0 (int (length ?ms)) (method_probe ?a ?ms) () = (Inr 1, ())"
    by (simp add: two_by_two_def run_defs)
  have a3: "GetAllPassesForMethod ?a (?ms ! nat (1 - 1)) () = (Inr ?ps, ())"
    by (simp add: two_by_two_def run_defs)
  have a4: "BinarySearch 0 (int (length ?ps)) (pass_probe ?a (?ms ! nat (1 - 1)) ?ps) () = (Inr 0, ())"
    by (simp add: two_by_two_def run_defs)
  have b1: "GetAllMethods ?b () = (Inr ?ms, ())" by (simp add: two_by_two_def run_defs)
  have b2: "BinarySearch 0 (int (length ?ms)) (method_probe ?b ?ms) () = (Inr 1, ())"
    by (simp add: two_by_two_def run_defs)
  have b3: "GetAllPassesForMethod ?b (?ms ! nat (1 - 1)) () = (Inr ?ps, ())"
    by (simp add: two_by_two_def run_defs)
  have b4: "BinarySearch 0 (int (length ?ps)) (pass_probe ?b (?ms ! nat (1 - 1)) ?ps) ()
              = (Inr (int (length ?ps)), ())"
    by (simp add: two_by_two_def run_defs)
  from BugSearch_stage_two_boundaries [OF a1 a2 i a3 a4]
    BugSearch_stage_two_boundaries [OF b1 b2 i b3 b4]
  show ?thesis by simp
qed

theorem BugSearch_stage_two_boundaries_counterexample:
  "GetAllMethods no_passes_testable () = (Inr [''m0'', ''m1''], ())
   \<and> BinarySearch 0 2 (method_probe no_passes_testable [''m0'', ''m1'']) () = (Inr 1, ())
   \<and> GetAllPassesForMethod no_passes_testable ''m0'' () = (Inr [], ())
   \<and> BinarySearch 0 (int (length ([] :: string list))) (pass_probe no_passes_testable ''m0'' []) ()
       = (Inr (int (length ([] :: string list))), ())
   \<and> BugSearch no_passes_testable () = (Inr (Some ''m0'', None), ())"
  by (simp add: no_passes_testable_def run_defs)

end
